theory Spec2Isabelle
  imports Complex_Main
begin

section \<open>Data model of \<open>lib/models/model.py\<close>\<close>

text \<open>
  The tensors of the program hold 32-bit floating-point numbers. They are modelled over
  the real numbers, and floating-point behaviour is written out in the two places where
  it changes what the program returns: a tensor division by zero does not raise but
  yields a non-finite entry (\<open>None\<close> below), and the float32 sigmoid saturates to \<open>0\<close>
  and to \<open>1\<close>. Rounding of the other operations is not modelled.

  A tensor of shape \<open>(N, J, 3)\<close> is a list of \<open>N\<close> samples, each a list of \<open>J\<close>
  points; a tensor of shape \<open>(N, D)\<close> is a list of \<open>N\<close> rows. The last dimension
  of a coordinate tensor is fixed to 3 by the type \<open>vec3\<close>. The inner dimensions of
  a tensor are the lengths of its samples, so the checks that PyTorch makes on them are
  made sample by sample, and an empty batch passes them.
\<close>

type_synonym vec3 = "real \<times> real \<times> real"

datatype error =
    ZeroDivisionError
  | ValueError
  | KeyError
  | IndexError
  | RuntimeError
  | NumericalDegeneracy

text \<open>The fields of the global \<open>cfg\<close> object that \<open>model.py\<close> reads.\<close>

record config =
  CAMERA_focal :: "real \<times> real"
  CAMERA_princpt :: "real \<times> real"
  CAMERA_camera_3d_size :: real
  MODEL_input_img_shape :: "int \<times> int"
  TRAIN_freeze_backbone :: bool

subsection \<open>Camera translation (\<open>Model.get_camera_trans\<close>)\<close>

text \<open>
  \<open>torch.sigmoid\<close> on a float32 tensor evaluates \<open>1 / (1 + exp(-s))\<close> in float32
  arithmetic. The real function lies strictly between \<open>0\<close> and \<open>1\<close>; the float32 one
  does not, and the two places where it leaves the real function are part of the
  definition. When \<open>exp(-s)\<close> reaches \<open>2^128 - 2^103\<close> it rounds to infinity and the
  quotient is \<open>0\<close> (from about \<open>s = -88.7\<close> downwards). When \<open>exp(-s)\<close> is at most
  \<open>2^-24\<close>, half the spacing of the float32 numbers above \<open>1\<close>, the sum
  \<open>1 + exp(-s)\<close> rounds to \<open>1\<close> and the quotient is \<open>1\<close> (from about \<open>s = 16.6\<close>
  upwards). Between the two the value is the real one.
\<close>

definition sigmoid :: "real \<Rightarrow> real" where
  "sigmoid s =
     (let e = exp (- s)
      in if 2 ^ 128 - 2 ^ 103 \<le> e then 0
         else if e \<le> 1 / 2 ^ 24 then 1
         else 1 / (1 + e))"

text \<open>
  The argument of \<open>math.sqrt\<close> on line 44. Python raises \<open>ZeroDivisionError\<close> on a
  zero divisor and \<open>math.sqrt\<close> raises \<open>ValueError\<close> on a negative argument.
\<close>

definition k_value :: "config \<Rightarrow> error + real" where
  "k_value cfg =
     (let num = fst (CAMERA_focal cfg) * snd (CAMERA_focal cfg)
                * CAMERA_camera_3d_size cfg * CAMERA_camera_3d_size cfg;
          den = real_of_int (fst (MODEL_input_img_shape cfg) * snd (MODEL_input_img_shape cfg))
      in if den = 0 then Inl ZeroDivisionError
         else if num / den < 0 then Inl ValueError
         else Inr (sqrt (num / den)))"

definition get_camera_trans :: "config \<Rightarrow> vec3 list \<Rightarrow> error + vec3 list" where
  "get_camera_trans cfg cam_param =
     (let t_xy = map (\<lambda>(tx, ty, s). (tx, ty)) cam_param;
          gamma = map (\<lambda>(tx, ty, s). sigmoid s) cam_param
      in case k_value cfg of
           Inl e \<Rightarrow> Inl e
         | Inr k \<Rightarrow>
             (let t_z = map (\<lambda>g. k * g) gamma
              in Inr (map (\<lambda>((tx, ty), tz). (tx, ty, tz)) (zip t_xy t_z))))"

subsection \<open>Indexing and broadcasting of tensors\<close>

text \<open>
  Python indexing of a dimension of size \<open>n\<close>: a negative index counts from the end, and
  an index outside \<open>[-n, n)\<close> raises \<open>IndexError\<close>.
\<close>

definition index_ok :: "nat \<Rightarrow> int \<Rightarrow> bool" where
  "index_ok n i \<longleftrightarrow> - int n \<le> i \<and> i < int n"

definition wrap_index :: "nat \<Rightarrow> int \<Rightarrow> nat" where
  "wrap_index n i = nat (if i < 0 then i + int n else i)"

text \<open>
  An elementwise operation on two tensors whose leading (batch) dimensions are
  \<open>length xs\<close> and \<open>length ys\<close>: a dimension of size 1 is broadcast, any other
  mismatch raises \<open>RuntimeError\<close>.
\<close>

definition broadcast2 :: "('a \<Rightarrow> 'b \<Rightarrow> 'c) \<Rightarrow> 'a list \<Rightarrow> 'b list \<Rightarrow> error + 'c list" where
  "broadcast2 f xs ys =
     (if length xs = length ys then Inr (map (\<lambda>(x, y). f x y) (zip xs ys))
      else if length xs = 1 then Inr (map (\<lambda>y. f (hd xs) y) ys)
      else if length ys = 1 then Inr (map (\<lambda>x. f x (hd ys)) xs)
      else Inl RuntimeError)"

fun vsub :: "vec3 \<Rightarrow> vec3 \<Rightarrow> vec3" where
  "vsub (a, b, c) (x, y, z) = (a - x, b - y, c - z)"

subsection \<open>The body model and the model object\<close>

text \<open>
  The body-model layer, the backbone and the head are external collaborators: functions
  of their inputs. The layer maps (root orientation, body pose, shape), each a batch of
  rows, to a batch of meshes.
\<close>

type_synonym smpl_layer_fn =
  "real list list \<Rightarrow> real list list \<Rightarrow> real list list \<Rightarrow> vec3 list list"

text \<open>The fields of the module \<open>human_models.smpl\<close> that \<open>model.py\<close> reads.\<close>

record smpl_module =
  layer :: "string \<rightharpoonup> smpl_layer_fn"
  joint_regressor :: "real list list"
  root_joint_idx :: int

datatype module = Backbone | Head

record ('img, 'feat) model =
  backbone :: "'img list \<Rightarrow> 'feat"
  head :: "'feat \<Rightarrow> real list list \<times> real list list \<times> vec3 list"
  smpl_layer :: smpl_layer_fn
  trainable_modules :: "module list"

text \<open>\<open>Model.__init__\<close>: the only configuration field read is \<open>cfg.TRAIN.freeze_backbone\<close>.\<close>

definition Model_init ::
  "config \<Rightarrow> smpl_module \<Rightarrow> ('img list \<Rightarrow> 'feat)
     \<Rightarrow> ('feat \<Rightarrow> real list list \<times> real list list \<times> vec3 list)
     \<Rightarrow> error + ('img, 'feat) model" where
  "Model_init cfg smpl bb hh =
     (case layer smpl ''neutral'' of
        None \<Rightarrow> Inl KeyError
      | Some l \<Rightarrow>
          Inr \<lparr> backbone = bb, head = hh, smpl_layer = l,
                trainable_modules =
                  (if TRAIN_freeze_backbone cfg then [Head] else [Backbone, Head]) \<rparr>)"

subsection \<open>Joint regression (line 56)\<close>

text \<open>One row of the regressor applied to one mesh: a weighted sum of the vertices.\<close>

definition regress_row :: "real list \<Rightarrow> vec3 list \<Rightarrow> vec3" where
  "regress_row w vs =
     (sum_list (map (\<lambda>(a, p). a * fst p) (zip w vs)),
      sum_list (map (\<lambda>(a, p). a * fst (snd p)) (zip w vs)),
      sum_list (map (\<lambda>(a, p). a * snd (snd p)) (zip w vs)))"

text \<open>
  \<open>torch.bmm\<close> of the regressor, repeated \<open>batch_size\<close> times, with the meshes:
  \<open>regress\<close> is the matrix product for one sample. It raises \<open>RuntimeError\<close> unless the
  batch sizes agree and every regressor row has one weight per vertex.
\<close>

definition regress :: "real list list \<Rightarrow> vec3 list \<Rightarrow> vec3 list" where
  "regress reg vs = map (\<lambda>w. regress_row w vs) reg"

definition bmm_regressor ::
  "real list list \<Rightarrow> nat \<Rightarrow> vec3 list list \<Rightarrow> error + vec3 list list" where
  "bmm_regressor reg batch_size mesh_cam =
     (if length mesh_cam = batch_size
         \<and> list_all (\<lambda>vs. list_all (\<lambda>w. length w = length vs) reg) mesh_cam
      then Inr (map (regress reg) mesh_cam)
      else Inl RuntimeError)"

subsection \<open>Projection to the image (lines 60 to 62)\<close>

text \<open>Tensor division: a zero divisor gives a non-finite entry, not an exception.\<close>

definition tdiv :: "real \<Rightarrow> real \<Rightarrow> real option" where
  "tdiv a b = (if b = 0 then None else Some (a / b))"

fun project_point :: "config \<Rightarrow> vec3 \<Rightarrow> vec3 \<Rightarrow> real option \<times> real option" where
  "project_point cfg (X, Y, Z) (tx, ty, tz) =
     (map_option (\<lambda>q. q * fst (CAMERA_focal cfg) + fst (CAMERA_princpt cfg))
        (tdiv (X + tx) (Z + tz + 1 / 10000)),
      map_option (\<lambda>q. q * snd (CAMERA_focal cfg) + snd (CAMERA_princpt cfg))
        (tdiv (Y + ty) (Z + tz + 1 / 10000)))"

definition project ::
  "config \<Rightarrow> vec3 list list \<Rightarrow> vec3 list
     \<Rightarrow> error + (real option \<times> real option) list list" where
  "project cfg joint_cam cam_trans =
     broadcast2 (\<lambda>js t. map (\<lambda>p. project_point cfg p t) js) joint_cam cam_trans"

subsection \<open>Root-relative coordinates (lines 65 to 67)\<close>

text \<open>
  \<open>joint_cam[:, root_joint_idx, None, :]\<close>. The joint dimension of the tensor is the
  length of each sample's joint list.
\<close>

definition select_root :: "int \<Rightarrow> vec3 list list \<Rightarrow> error + vec3 list" where
  "select_root idx joint_cam =
     (if list_all (\<lambda>js. index_ok (length js) idx) joint_cam
      then Inr (map (\<lambda>js. js ! wrap_index (length js) idx) joint_cam)
      else Inl IndexError)"

definition root_relative ::
  "int \<Rightarrow> vec3 list list \<Rightarrow> vec3 list list \<Rightarrow> error + (vec3 list list \<times> vec3 list list)" where
  "root_relative idx joint_cam mesh_cam =
     (case select_root idx joint_cam of
        Inl e \<Rightarrow> Inl e
      | Inr root_cam \<Rightarrow>
          (case broadcast2 (\<lambda>js rc. map (\<lambda>p. vsub p rc) js) joint_cam root_cam of
             Inl e \<Rightarrow> Inl e
           | Inr joint_cam' \<Rightarrow>
               (case broadcast2 (\<lambda>vs rc. map (\<lambda>p. vsub p rc) vs) mesh_cam root_cam of
                  Inl e \<Rightarrow> Inl e
                | Inr mesh_cam' \<Rightarrow> Inr (joint_cam', mesh_cam'))))"

subsection \<open>\<open>Model.get_coord\<close>\<close>

definition get_coord ::
  "('img, 'feat) model \<Rightarrow> smpl_module \<Rightarrow> config
     \<Rightarrow> real list list \<Rightarrow> real list list \<Rightarrow> real list list \<Rightarrow> vec3 list
     \<Rightarrow> error + ((real option \<times> real option) list list \<times> vec3 list list \<times> vec3 list list)" where
  "get_coord m smpl cfg smpl_root_pose smpl_pose smpl_shape cam_trans =
     (let batch_size = length smpl_root_pose;
          mesh_cam = smpl_layer m smpl_root_pose smpl_pose smpl_shape
      in case bmm_regressor (joint_regressor smpl) batch_size mesh_cam of
           Inl e \<Rightarrow> Inl e
         | Inr joint_cam \<Rightarrow>
             (case project cfg joint_cam cam_trans of
                Inl e \<Rightarrow> Inl e
              | Inr joint_proj \<Rightarrow>
                  (case root_relative (root_joint_idx smpl) joint_cam mesh_cam of
                     Inl e \<Rightarrow> Inl e
                   | Inr (joint_cam', mesh_cam') \<Rightarrow> Inr (joint_proj, joint_cam', mesh_cam'))))"

subsection \<open>Rotation converter (\<open>funcs_utils.rot6d_to_axis_angle\<close>)\<close>

text \<open>
  Modelled from the spec: \<open>rot6d_to_axis_angle\<close> is imported from \<open>funcs_utils\<close>, which
  is not among the sources. The definitions follow section 4.1 of the specification:
  each 6-vector is two 3-vectors \<open>a1\<close>, \<open>a2\<close> (here its first and its last three
  entries); \<open>b1 = normalize a1\<close>, \<open>b2 = normalize (a2 - (b1 . a2) b1)\<close>,
  \<open>b3 = b1 x b2\<close> are the columns of the rotation matrix; the angle is
  \<open>arccos ((trace - 1) / 2)\<close> and the axis is the normalised vector of the skew-symmetric
  part; a zero angle gives the zero vector; normalising a zero vector fails with
  \<open>NumericalDegeneracy\<close>. A matrix is the triple of its columns.
\<close>

fun dot :: "vec3 \<Rightarrow> vec3 \<Rightarrow> real" where
  "dot (a, b, c) (x, y, z) = a * x + b * y + c * z"

fun cross :: "vec3 \<Rightarrow> vec3 \<Rightarrow> vec3" where
  "cross (a, b, c) (x, y, z) = (b * z - c * y, c * x - a * z, a * y - b * x)"

fun scale :: "real \<Rightarrow> vec3 \<Rightarrow> vec3" where
  "scale k (x, y, z) = (k * x, k * y, k * z)"

definition norm3 :: "vec3 \<Rightarrow> real" where
  "norm3 v = sqrt (dot v v)"

definition normalize :: "vec3 \<Rightarrow> error + vec3" where
  "normalize v = (if norm3 v = 0 then Inl NumericalDegeneracy else Inr (scale (1 / norm3 v) v))"

definition gram_schmidt :: "vec3 \<Rightarrow> vec3 \<Rightarrow> error + (vec3 \<times> vec3 \<times> vec3)" where
  "gram_schmidt a1 a2 =
     (case normalize a1 of
        Inl e \<Rightarrow> Inl e
      | Inr b1 \<Rightarrow>
          (case normalize (vsub a2 (scale (dot b1 a2) b1)) of
             Inl e \<Rightarrow> Inl e
           | Inr b2 \<Rightarrow> Inr (b1, b2, cross b1 b2)))"

fun matrix_to_axis_angle :: "vec3 \<times> vec3 \<times> vec3 \<Rightarrow> error + vec3" where
  "matrix_to_axis_angle ((r11, r21, r31), (r12, r22, r32), (r13, r23, r33)) =
     (let angle = arccos ((r11 + r22 + r33 - 1) / 2);
          skew = ((r32 - r23) / 2, (r13 - r31) / 2, (r21 - r12) / 2)
      in if angle = 0 then Inr (0, 0, 0)
         else (case normalize skew of
                 Inl e \<Rightarrow> Inl e
               | Inr axis \<Rightarrow> Inr (scale angle axis)))"

definition rot6d_one :: "vec3 \<Rightarrow> vec3 \<Rightarrow> error + vec3" where
  "rot6d_one a1 a2 =
     (case gram_schmidt a1 a2 of Inl e \<Rightarrow> Inl e | Inr R \<Rightarrow> matrix_to_axis_angle R)"

fun rot6d_row :: "real list \<Rightarrow> error + real list" where
  "rot6d_row [p, q, r, s, t, u] =
     (case rot6d_one (p, q, r) (s, t, u) of
        Inl e \<Rightarrow> Inl e
      | Inr (x, y, z) \<Rightarrow> Inr [x, y, z])"
| "rot6d_row _ = Inl RuntimeError"

text \<open>A function that may raise, applied to every row: the first error is the result.\<close>

fun traverse :: "('a \<Rightarrow> error + 'b) \<Rightarrow> 'a list \<Rightarrow> error + 'b list" where
  "traverse f [] = Inr []"
| "traverse f (x # xs) =
     (case f x of
        Inl e \<Rightarrow> Inl e
      | Inr y \<Rightarrow> (case traverse f xs of Inl e \<Rightarrow> Inl e | Inr ys \<Rightarrow> Inr (y # ys)))"

definition rot6d_to_axis_angle :: "real list list \<Rightarrow> error + real list list" where
  "rot6d_to_axis_angle x = traverse rot6d_row x"

text \<open>
  The rotation matrix of an angle and a unit axis (Rodrigues' formula), by columns, and
  the 6-vector made of its first two columns: the construction the round-trip property
  of the specification starts from.
\<close>

fun axis_angle_to_matrix :: "real \<Rightarrow> vec3 \<Rightarrow> vec3 \<times> vec3 \<times> vec3" where
  "axis_angle_to_matrix \<theta> (x, y, z) =
     (let c = cos \<theta>; s = sin \<theta>; t = 1 - cos \<theta>
      in ((c + x * x * t, x * y * t + z * s, x * z * t - y * s),
          (x * y * t - z * s, c + y * y * t, y * z * t + x * s),
          (x * z * t + y * s, y * z * t - x * s, c + z * z * t)))"

fun encode6 :: "vec3 \<times> vec3 \<times> vec3 \<Rightarrow> real list" where
  "encode6 ((r11, r21, r31), (r12, r22, r32), col3) = [r11, r21, r31, r12, r22, r32]"

subsection \<open>\<open>Model.forward\<close>\<close>

text \<open>
  \<open>rot6d_to_axis_angle\<close> is a name imported into \<open>model.py\<close>; like \<open>cfg\<close> and \<open>smpl\<close>
  it is an argument \<open>conv\<close> of the model of \<open>forward\<close>, so that what is proved of
  \<open>forward\<close> holds for every converter.

  \<open>x.reshape(-1, k)\<close> and \<open>x.reshape(n, -1)\<close> on a two-dimensional tensor given by its
  rows, in row-major order. Both raise \<open>RuntimeError\<close> when the number of elements is
  not a multiple of the given dimension, and \<open>reshape(0, -1)\<close> always raises.
\<close>

definition chunks :: "nat \<Rightarrow> nat \<Rightarrow> 'a list \<Rightarrow> 'a list list" where
  "chunks n c xs = map (\<lambda>i. take c (drop (i * c) xs)) [0..<n]"

definition reshape_cols :: "nat \<Rightarrow> real list list \<Rightarrow> error + real list list" where
  "reshape_cols k x =
     (let flat = concat x
      in if k = 0 \<or> length flat mod k \<noteq> 0 then Inl RuntimeError
         else Inr (chunks (length flat div k) k flat))"

definition reshape_rows :: "nat \<Rightarrow> real list list \<Rightarrow> error + real list list" where
  "reshape_rows n x =
     (let flat = concat x
      in if n = 0 \<or> length flat mod n \<noteq> 0 then Inl RuntimeError
         else Inr (chunks n (length flat div n) flat))"

definition forward ::
  "('img, 'feat) model \<Rightarrow> (real list list \<Rightarrow> error + real list list)
     \<Rightarrow> smpl_module \<Rightarrow> config \<Rightarrow> 'img list
     \<Rightarrow> error + (vec3 list list \<times> vec3 list list \<times> (real option \<times> real option) list list
                 \<times> real list list \<times> real list list)" where
  "forward m conv smpl cfg inp_img =
     (let batch_size = length inp_img;
          img_feat = backbone m inp_img;
          (smpl_pose6d, smpl_shape, cam_param) = head m img_feat
      in case reshape_cols 6 smpl_pose6d of
           Inl e \<Rightarrow> Inl e
         | Inr rows6 \<Rightarrow>
        (case conv rows6 of
           Inl e \<Rightarrow> Inl e
         | Inr rows3 \<Rightarrow>
        (case reshape_rows batch_size rows3 of
           Inl e \<Rightarrow> Inl e
         | Inr smpl_pose \<Rightarrow>
        (case get_camera_trans cfg cam_param of
           Inl e \<Rightarrow> Inl e
         | Inr cam_trans \<Rightarrow>
        (case get_coord m smpl cfg (map (take 3) smpl_pose) (map (drop 3) smpl_pose)
                smpl_shape cam_trans of
           Inl e \<Rightarrow> Inl e
         | Inr (joint_proj, joint_cam, mesh_cam) \<Rightarrow>
             Inr (mesh_cam, joint_cam, joint_proj, smpl_pose, smpl_shape))))))"

subsection \<open>The scale constant as the specification writes it, and sample data\<close>

text \<open>
  The specification's \<open>k = sqrt(focal_x * focal_y * camera_3d_size^2 / (input_width *
  input_height))\<close>, to be compared with \<open>k_value\<close>, which follows line 44.
\<close>

definition spec_k :: "config \<Rightarrow> real" where
  "spec_k cfg =
     sqrt (fst (CAMERA_focal cfg) * snd (CAMERA_focal cfg) * (CAMERA_camera_3d_size cfg)\<^sup>2
           / (real_of_int (fst (MODEL_input_img_shape cfg)) * real_of_int (snd (MODEL_input_img_shape cfg))))"

text \<open>
  A sample configuration (the focal lengths and principal point of the specification's
  projection example), a small body model with two vertices and two joints, and a model
  whose backbone counts the images and whose head predicts the identity rotation for one
  joint: the theorems below are evaluated on them.
\<close>

definition demo_cfg :: config where
  "demo_cfg = \<lparr> CAMERA_focal = (1000, 1000), CAMERA_princpt = (256, 256),
                CAMERA_camera_3d_size = 5 / 2, MODEL_input_img_shape = (256, 256),
                TRAIN_freeze_backbone = False \<rparr>"

definition demo_layer :: smpl_layer_fn where
  "demo_layer rp bp sh = map (\<lambda>r. [(0, 0, 5), (2 + sum_list r, 4, 13)]) rp"

definition demo_smpl :: smpl_module where
  "demo_smpl = \<lparr> layer = [''neutral'' \<mapsto> demo_layer],
                 joint_regressor = [[1, 0], [1 / 2, 1 / 2]],
                 root_joint_idx = 0 \<rparr>"

definition demo_model :: "(nat, nat) model" where
  "demo_model = \<lparr> backbone = length,
                  head = (\<lambda>n. (replicate n [1, 0, 0, 0, 1, 0], replicate n [3, 4], replicate n (0, 0, 0))),
                  smpl_layer = demo_layer, trainable_modules = [Backbone, Head] \<rparr>"

text \<open>
  Two configurations for which line 44 raises: an input resolution with a zero
  dimension, and focal lengths of opposite sign (a negative argument of \<open>math.sqrt\<close>).
\<close>

definition zero_res_cfg :: config where
  "zero_res_cfg = demo_cfg \<lparr> MODEL_input_img_shape := (0, 256) \<rparr>"

definition mirrored_cfg :: config where
  "mirrored_cfg = demo_cfg \<lparr> CAMERA_focal := (- 1000, 1000) \<rparr>"


section \<open>Camera translation: formula and bound\<close>

subsection \<open>The range of the float32 sigmoid\<close>



lemma sigmoid_zero: "sigmoid 0 = 1 / 2"
  by (simp add: sigmoid_def Let_def)










subsection \<open>The rows of \<open>get_camera_trans\<close>\<close>

lemma get_camera_trans_rows:
  assumes "k_value cfg = Inr k"
  shows "get_camera_trans cfg cam_param
           = Inr (map (\<lambda>(tx, ty, s). (tx, ty, k * sigmoid s)) cam_param)"
proof -
  have "map (\<lambda>((tx, ty), tz). (tx, ty, tz))
          (zip (map (\<lambda>(tx, ty, s). (tx, ty)) ps)
               (map (\<lambda>g. k * g) (map (\<lambda>(tx, ty, s). sigmoid s) ps)))
        = map (\<lambda>(tx, ty, s). (tx, ty, k * sigmoid s)) ps" for ps :: "vec3 list"
    by (induction ps) auto
  with assms show ?thesis by (simp add: get_camera_trans_def)
qed

lemma k_value_spec_k:
  assumes "real_of_int (fst (MODEL_input_img_shape cfg)) * real_of_int (snd (MODEL_input_img_shape cfg)) \<noteq> 0"
    and "0 \<le> fst (CAMERA_focal cfg) * snd (CAMERA_focal cfg) * (CAMERA_camera_3d_size cfg)\<^sup>2
              / (real_of_int (fst (MODEL_input_img_shape cfg)) * real_of_int (snd (MODEL_input_img_shape cfg)))"
  shows "k_value cfg = Inr (spec_k cfg)" and "0 \<le> spec_k cfg"
proof -
  let ?num = "fst (CAMERA_focal cfg) * snd (CAMERA_focal cfg) * (CAMERA_camera_3d_size cfg)\<^sup>2"
  let ?den = "real_of_int (fst (MODEL_input_img_shape cfg)) * real_of_int (snd (MODEL_input_img_shape cfg))"
  from assms have den: "?den \<noteq> 0" and nonneg: "0 \<le> ?num / ?den" by simp_all
  show "0 \<le> spec_k cfg" using nonneg by (simp add: spec_k_def)
  have "k_value cfg = Inr (sqrt (?num / ?den))"
    using nonneg den by (simp add: k_value_def Let_def power2_eq_square not_less)
  then show "k_value cfg = Inr (spec_k cfg)" by (simp add: spec_k_def)
qed

lemma spec_k_demo: "spec_k demo_cfg = 625 / 64"
proof -
  have "sqrt ((625 / 64)\<^sup>2) = (625 / 64 :: real)" by simp
  moreover have "(625 / 64 :: real)\<^sup>2 = 1000 * 1000 * (5 / 2)\<^sup>2 / (256 * 256)"
    by (simp add: power2_eq_square)
  ultimately show ?thesis by (simp add: spec_k_def demo_cfg_def)
qed

lemma k_value_demo: "k_value demo_cfg = Inr (625 / 64)"
proof -
  have "real_of_int (fst (MODEL_input_img_shape demo_cfg))
          * real_of_int (snd (MODEL_input_img_shape demo_cfg)) \<noteq> 0"
    and "0 \<le> fst (CAMERA_focal demo_cfg) * snd (CAMERA_focal demo_cfg)
             * (CAMERA_camera_3d_size demo_cfg)\<^sup>2
          / (real_of_int (fst (MODEL_input_img_shape demo_cfg))
             * real_of_int (snd (MODEL_input_img_shape demo_cfg)))"
    by (simp_all add: demo_cfg_def)
  from k_value_spec_k(1) [OF this] show ?thesis by (simp add: spec_k_demo)
qed

subsection \<open>The bound on the depth\<close>




section \<open>The coordinate pipeline \<open>get_coord\<close>\<close>

subsection \<open>What a successful run computes\<close>

lemma broadcast2_same_length:
  "length xs = length ys \<Longrightarrow> broadcast2 f xs ys = Inr (map (\<lambda>(x, y). f x y) (zip xs ys))"
  by (simp add: broadcast2_def)

lemma zip_map_self: "map (\<lambda>(x, y). f x y) (zip xs (map g xs)) = map (\<lambda>x. f x (g x)) xs"
  by (induction xs) simp_all

lemma zip_map_map_self:
  "map (\<lambda>(x, y). f x y) (zip (map h xs) (map g xs)) = map (\<lambda>x. f (h x) (g x)) xs"
  by (induction xs) simp_all

lemma length_regress [simp]: "length (regress reg vs) = length reg"
  by (simp add: regress_def)

lemma nth_regress: "j < length reg \<Longrightarrow> regress reg vs ! j = regress_row (reg ! j) vs"
  by (simp add: regress_def)

lemma bmm_regressor_Inr:
  assumes "bmm_regressor reg n mesh_cam = Inr joint_cam"
  shows "length mesh_cam = n" and "joint_cam = map (regress reg) mesh_cam"
  using assms by (auto simp: bmm_regressor_def split: if_splits)

lemma select_root_regress:
  "select_root idx (map (regress reg) mesh_cam) =
     (if mesh_cam = [] \<or> index_ok (length reg) idx
      then Inr (map (\<lambda>vs. regress reg vs ! wrap_index (length reg) idx) mesh_cam)
      else Inl IndexError)"
  by (cases mesh_cam) (simp_all add: select_root_def list_all_iff comp_def)

lemma root_relative_regress:
  "root_relative idx (map (regress reg) mesh_cam) mesh_cam =
     (if mesh_cam = [] \<or> index_ok (length reg) idx
      then Inr (map (\<lambda>vs. map (\<lambda>p. vsub p (regress reg vs ! wrap_index (length reg) idx))
                              (regress reg vs)) mesh_cam,
                map (\<lambda>vs. map (\<lambda>p. vsub p (regress reg vs ! wrap_index (length reg) idx)) vs)
                    mesh_cam)
      else Inl IndexError)"
  by (simp add: root_relative_def select_root_regress broadcast2_same_length
        zip_map_self zip_map_map_self)

lemma get_coord_Inr:
  assumes "get_coord m smpl cfg rp bp sh ct = Inr (joint_proj, joint_cam', mesh_cam')"
  defines "mesh_cam \<equiv> smpl_layer m rp bp sh"
  defines "r \<equiv> wrap_index (length (joint_regressor smpl)) (root_joint_idx smpl)"
  shows "length mesh_cam = length rp"
    and "project cfg (map (regress (joint_regressor smpl)) mesh_cam) ct = Inr joint_proj"
    and "root_relative (root_joint_idx smpl) (map (regress (joint_regressor smpl)) mesh_cam) mesh_cam
           = Inr (joint_cam', mesh_cam')"
    and "mesh_cam = [] \<or> index_ok (length (joint_regressor smpl)) (root_joint_idx smpl)"
    and "joint_cam' = map (\<lambda>vs. map (\<lambda>p. vsub p (regress (joint_regressor smpl) vs ! r))
                                 (regress (joint_regressor smpl) vs)) mesh_cam"
    and "mesh_cam' = map (\<lambda>vs. map (\<lambda>p. vsub p (regress (joint_regressor smpl) vs ! r)) vs) mesh_cam"
proof -
  from assms(1) obtain joint_cam where
    bmm: "bmm_regressor (joint_regressor smpl) (length rp) mesh_cam = Inr joint_cam"
    and proj: "project cfg joint_cam ct = Inr joint_proj"
    and rr: "root_relative (root_joint_idx smpl) joint_cam mesh_cam = Inr (joint_cam', mesh_cam')"
    by (auto simp: get_coord_def mesh_cam_def Let_def split: sum.splits)
  from bmm_regressor_Inr [OF bmm]
  have len: "length mesh_cam = length rp"
    and jc: "joint_cam = map (regress (joint_regressor smpl)) mesh_cam" by simp_all
  show "length mesh_cam = length rp" by (rule len)
  show "project cfg (map (regress (joint_regressor smpl)) mesh_cam) ct = Inr joint_proj"
    using proj jc by simp
  show rr': "root_relative (root_joint_idx smpl) (map (regress (joint_regressor smpl)) mesh_cam) mesh_cam
           = Inr (joint_cam', mesh_cam')"
    using rr jc by simp
  show ok: "mesh_cam = [] \<or> index_ok (length (joint_regressor smpl)) (root_joint_idx smpl)"
    using rr' unfolding root_relative_regress by (simp split: if_splits)
  show "joint_cam' = map (\<lambda>vs. map (\<lambda>p. vsub p (regress (joint_regressor smpl) vs ! r))
                                 (regress (joint_regressor smpl) vs)) mesh_cam"
    using rr' ok unfolding root_relative_regress r_def by (simp split: if_splits)
  show "mesh_cam' = map (\<lambda>vs. map (\<lambda>p. vsub p (regress (joint_regressor smpl) vs ! r)) vs) mesh_cam"
    using rr' ok unfolding root_relative_regress r_def by (simp split: if_splits)
qed

lemma demo_run:
  "get_coord demo_model demo_smpl demo_cfg [[0, 0, 0]] [[]] [[]] [(0, 0, 9999 / 10000)]
     = Inr ([[(Some 256, Some 256), (Some 356, Some 456)]],
            [[(0, 0, 0), (1, 2, 4)]],
            [[(0, 0, 0), (2, 4, 8)]])"
  by (simp add: get_coord_def demo_model_def demo_smpl_def demo_cfg_def demo_layer_def
        bmm_regressor_def regress_def regress_row_def project_def broadcast2_def tdiv_def
        root_relative_def select_root_def index_ok_def wrap_index_def)

lemma wrap_index_less: "index_ok n i \<Longrightarrow> wrap_index n i < n"
  by (auto simp: index_ok_def wrap_index_def)

lemma vsub_self [simp]: "vsub p p = (0, 0, 0)"
  by (cases p) simp

lemma vsub_zero [simp]: "vsub p (0, 0, 0) = p"
  by (cases p) simp

subsection \<open>Projection comes before normalisation\<close>

text \<open>
  Claim C1. In a successful run of \<open>get_coord\<close> the returned \<open>joint_proj\<close> is the
  projection of the regressed joints in absolute camera space, as they are before the
  root joint is subtracted; the root-relative \<open>joint_cam\<close> and \<open>mesh_cam\<close> returned with
  it are computed from those same absolute joints afterwards and do not enter
  \<open>joint_proj\<close>.
\<close>

theorem get_coord_projects_absolute_joints:
  assumes "get_coord m smpl cfg rp bp sh ct = Inr (joint_proj, joint_cam', mesh_cam')"
  shows "project cfg (map (regress (joint_regressor smpl)) (smpl_layer m rp bp sh)) ct
           = Inr joint_proj
         \<and> root_relative (root_joint_idx smpl)
              (map (regress (joint_regressor smpl)) (smpl_layer m rp bp sh))
              (smpl_layer m rp bp sh)
           = Inr (joint_cam', mesh_cam')"
  using get_coord_Inr(2,3) [OF assms] by simp

theorem get_coord_projects_absolute_joints_witness:
  "get_coord demo_model demo_smpl demo_cfg [[0, 0, 0]] [[]] [[]] [(0, 0, 9999 / 10000)]
     = Inr ([[(Some 256, Some 256), (Some 356, Some 456)]],
            [[(0, 0, 0), (1, 2, 4)]],
            [[(0, 0, 0), (2, 4, 8)]])
   \<and> project demo_cfg [[(0, 0, 5), (1, 2, 9)]] [(0, 0, 9999 / 10000)]
     = Inr [[(Some 256, Some 256), (Some 356, Some 456)]]
   \<and> project demo_cfg [[(0, 0, 0), (1, 2, 4)]] [(0, 0, 9999 / 10000)]
     = Inr [[(Some 256, Some 256), (Some 456, Some 656)]]"
proof -
  have abs: "map (regress (joint_regressor demo_smpl))
               (smpl_layer demo_model [[0, 0, 0]] [[]] [[]]) = [[(0, 0, 5), (1, 2, 9)]]"
    by (simp add: demo_model_def demo_smpl_def demo_layer_def regress_def regress_row_def)
  have rel: "project demo_cfg [[(0, 0, 0), (1, 2, 4)]] [(0, 0, 9999 / 10000)]
               = Inr [[(Some 256, Some 256), (Some 456, Some 656)]]"
    by (simp add: project_def broadcast2_def tdiv_def demo_cfg_def)
  from get_coord_projects_absolute_joints [OF demo_run] abs demo_run rel
  show ?thesis by simp
qed

subsection \<open>The root joint is the origin\<close>

text \<open>
  Claim C2. For every sample \<open>b\<close> of a successful run, the root row of the returned
  \<open>joint_cam\<close> is \<open>(0, 0, 0)\<close>, and the returned \<open>mesh_cam\<close> is the body model's mesh
  with the root joint's coordinate, taken from the regressed joints, subtracted from
  every vertex.
\<close>

theorem get_coord_root_relative:
  assumes run: "get_coord m smpl cfg rp bp sh ct = Inr (joint_proj, joint_cam', mesh_cam')"
    and b: "b < length rp"
  shows "index_ok (length (joint_regressor smpl)) (root_joint_idx smpl)
         \<and> length joint_cam' = length rp \<and> length mesh_cam' = length rp
         \<and> joint_cam' ! b ! wrap_index (length (joint_regressor smpl)) (root_joint_idx smpl)
             = (0, 0, 0)
         \<and> mesh_cam' ! b
             = map (\<lambda>v. vsub v (regress (joint_regressor smpl) (smpl_layer m rp bp sh ! b)
                                  ! wrap_index (length (joint_regressor smpl)) (root_joint_idx smpl)))
                 (smpl_layer m rp bp sh ! b)"
proof -
  let ?mesh = "smpl_layer m rp bp sh"
  let ?J = "length (joint_regressor smpl)"
  let ?r = "wrap_index ?J (root_joint_idx smpl)"
  note facts = get_coord_Inr [OF run]
  have len: "length ?mesh = length rp" by (rule facts(1))
  with b have ne: "?mesh \<noteq> []" by auto
  with facts(4) have ok: "index_ok ?J (root_joint_idx smpl)" by simp
  then have r: "?r < ?J" by (rule wrap_index_less)
  have jc: "joint_cam' ! b = map (\<lambda>p. vsub p (regress (joint_regressor smpl) (?mesh ! b) ! ?r))
                                (regress (joint_regressor smpl) (?mesh ! b))"
    using facts(5) b len by simp
  have mc: "mesh_cam' ! b = map (\<lambda>p. vsub p (regress (joint_regressor smpl) (?mesh ! b) ! ?r))
                                (?mesh ! b)"
    using facts(6) b len by simp
  have "joint_cam' ! b ! ?r = (0, 0, 0)" using r by (simp add: jc)
  moreover have "length joint_cam' = length rp" "length mesh_cam' = length rp"
    using facts(5,6) len by simp_all
  ultimately show ?thesis using ok mc by simp
qed

theorem get_coord_root_relative_witness:
  "get_coord demo_model demo_smpl demo_cfg [[0, 0, 0]] [[]] [[]] [(0, 0, 9999 / 10000)]
     = Inr ([[(Some 256, Some 256), (Some 356, Some 456)]],
            [[(0, 0, 0), (1, 2, 4)]],
            [[(0, 0, 0), (2, 4, 8)]])
   \<and> index_ok (length (joint_regressor demo_smpl)) (root_joint_idx demo_smpl)
   \<and> wrap_index (length (joint_regressor demo_smpl)) (root_joint_idx demo_smpl) = 0
   \<and> smpl_layer demo_model [[0, 0, 0]] [[]] [[]] = [[(0, 0, 5), (2, 4, 13)]]
   \<and> regress (joint_regressor demo_smpl) [(0, 0, 5), (2, 4, 13)] ! 0 = (0, 0, 5)"
proof -
  have "wrap_index (length (joint_regressor demo_smpl)) (root_joint_idx demo_smpl) = 0"
    by (simp add: demo_smpl_def wrap_index_def)
  moreover have "smpl_layer demo_model [[0, 0, 0]] [[]] [[]] = [[(0, 0, 5), (2, 4, 13)]]"
    by (simp add: demo_model_def demo_layer_def)
  moreover have "regress (joint_regressor demo_smpl) [(0, 0, 5), (2, 4, 13)] ! 0 = (0, 0, 5)"
    by (simp add: demo_smpl_def regress_def regress_row_def)
  ultimately show ?thesis
    using get_coord_root_relative [OF demo_run, of 0] demo_run by simp
qed

subsection \<open>The projection formula\<close>

lemma project_nth:
  assumes "project cfg joint_cam ct = Inr joint_proj"
    and "length ct = length joint_cam" and "b < length joint_cam" and "j < length (joint_cam ! b)"
  shows "joint_proj ! b ! j = project_point cfg (joint_cam ! b ! j) (ct ! b)"
  using assms by (auto simp: project_def broadcast2_def)

lemma project_point_eq:
  "project_point cfg (X, Y, Z) (tx, ty, tz) =
     (if Z + tz + 1 / 10000 = 0 then (None, None)
      else (Some ((X + tx) / (Z + tz + 1 / 10000) * fst (CAMERA_focal cfg)
                  + fst (CAMERA_princpt cfg)),
            Some ((Y + ty) / (Z + tz + 1 / 10000) * snd (CAMERA_focal cfg)
                  + snd (CAMERA_princpt cfg))))"
  by (simp add: tdiv_def)

lemma get_coord_joint_proj_nth:
  assumes run: "get_coord m smpl cfg rp bp sh ct = Inr (joint_proj, joint_cam', mesh_cam')"
    and ct: "length ct = length rp" and b: "b < length rp"
    and j: "j < length (joint_regressor smpl)"
  shows "joint_proj ! b ! j =
           project_point cfg (regress_row (joint_regressor smpl ! j) (smpl_layer m rp bp sh ! b))
             (ct ! b)"
proof -
  let ?mesh = "smpl_layer m rp bp sh"
  let ?abs = "map (regress (joint_regressor smpl)) ?mesh"
  note facts = get_coord_Inr [OF run]
  have len: "length ?mesh = length rp" by (rule facts(1))
  have "joint_proj ! b ! j = project_point cfg (?abs ! b ! j) (ct ! b)"
    using facts(2) ct b j len by (intro project_nth) simp_all
  also have "?abs ! b ! j = regress_row (joint_regressor smpl ! j) (?mesh ! b)"
    using b j len by (simp add: nth_regress)
  finally show ?thesis .
qed

text \<open>
  Claim C4. In a successful run with one camera translation per sample, the projection
  of joint \<open>j\<close> of sample \<open>b\<close>, whose regressed camera coordinates are \<open>(X, Y, Z)\<close>, is
  \<open>x = (X + tx) / (Z + tz + 1e-4) * focal_x + principal_x\<close> and
  \<open>y = (Y + ty) / (Z + tz + 1e-4) * focal_y + principal_y\<close> (a non-finite entry when the
  divisor is zero); and the joint \<open>(0, 0, 5)\<close> with translation \<open>(0, 0, 1)\<close>, focal
  lengths \<open>(1000, 1000)\<close> and principal point \<open>(256, 256)\<close> projects to \<open>(256, 256)\<close>.
\<close>

theorem get_coord_projection_formula:
  assumes run: "get_coord m smpl cfg rp bp sh ct = Inr (joint_proj, joint_cam', mesh_cam')"
    and ct: "length ct = length rp" and b: "b < length rp"
    and j: "j < length (joint_regressor smpl)"
    and joint: "regress_row (joint_regressor smpl ! j) (smpl_layer m rp bp sh ! b) = (X, Y, Z)"
    and trans: "ct ! b = (tx, ty, tz)"
  shows "joint_proj ! b ! j =
           (if Z + tz + 1 / 10000 = 0 then (None, None)
            else (Some ((X + tx) / (Z + tz + 1 / 10000) * fst (CAMERA_focal cfg)
                        + fst (CAMERA_princpt cfg)),
                  Some ((Y + ty) / (Z + tz + 1 / 10000) * snd (CAMERA_focal cfg)
                        + snd (CAMERA_princpt cfg))))
         \<and> project demo_cfg [[(0, 0, 5)]] [(0, 0, 1)] = Inr [[(Some 256, Some 256)]]"
proof -
  have "joint_proj ! b ! j = project_point cfg (X, Y, Z) (tx, ty, tz)"
    using get_coord_joint_proj_nth [OF run ct b j] joint trans by simp
  moreover have "project demo_cfg [[(0, 0, 5)]] [(0, 0, 1)] = Inr [[(Some 256, Some 256)]]"
    by (simp add: project_def broadcast2_def tdiv_def demo_cfg_def)
  ultimately show ?thesis by (simp add: project_point_eq del: project_point.simps)
qed

lemma demo_run_unit_depth:
  "get_coord demo_model demo_smpl demo_cfg [[0, 0, 0]] [[]] [[]] [(0, 0, 1)]
     = Inr ([[(Some 256, Some 256),
              (Some (35600256 / 100001), Some (45600256 / 100001))]],
            [[(0, 0, 0), (1, 2, 4)]],
            [[(0, 0, 0), (2, 4, 8)]])"
  by (simp add: get_coord_def demo_model_def demo_smpl_def demo_cfg_def demo_layer_def
        bmm_regressor_def regress_def regress_row_def project_def broadcast2_def tdiv_def
        root_relative_def select_root_def index_ok_def wrap_index_def)

theorem get_coord_projection_formula_witness:
  "get_coord demo_model demo_smpl demo_cfg [[0, 0, 0]] [[]] [[]] [(0, 0, 1)]
     = Inr ([[(Some 256, Some 256),
              (Some (35600256 / 100001), Some (45600256 / 100001))]],
            [[(0, 0, 0), (1, 2, 4)]],
            [[(0, 0, 0), (2, 4, 8)]])
   \<and> regress_row (joint_regressor demo_smpl ! 0) (smpl_layer demo_model [[0, 0, 0]] [[]] [[]] ! 0)
       = (0, 0, 5)
   \<and> (0 + 0) / (5 + 1 + 1 / 10000) * fst (CAMERA_focal demo_cfg) + fst (CAMERA_princpt demo_cfg)
       = 256"
proof -
  have joint: "regress_row (joint_regressor demo_smpl ! 0)
                 (smpl_layer demo_model [[0, 0, 0]] [[]] [[]] ! 0) = (0, 0, 5)"
    by (simp add: demo_smpl_def demo_model_def demo_layer_def regress_row_def)
  have "[[(Some 256, Some 256), (Some (35600256 / 100001 :: real), Some (45600256 / 100001 :: real))]] ! 0 ! 0
          = (if (5::real) + 1 + 1 / 10000 = 0 then (None, None)
             else (Some ((0 + 0) / (5 + 1 + 1 / 10000) * fst (CAMERA_focal demo_cfg)
                         + fst (CAMERA_princpt demo_cfg)),
                   Some ((0 + 0) / (5 + 1 + 1 / 10000) * snd (CAMERA_focal demo_cfg)
                         + snd (CAMERA_princpt demo_cfg))))"
  proof -
    have len: "length [(0, 0, 1 :: real)] = length [[0, 0, 0 :: real]]" by simp
    have b: "0 < length [[0, 0, 0 :: real]]" by simp
    have j: "0 < length (joint_regressor demo_smpl)" by (simp add: demo_smpl_def)
    have trans: "[(0, 0, 1)] ! 0 = (0 :: real, 0 :: real, 1 :: real)" by simp
    from get_coord_projection_formula [OF demo_run_unit_depth len b j joint trans]
    show ?thesis by simp
  qed
  then show ?thesis using demo_run_unit_depth joint by (simp add: demo_cfg_def)
qed

subsection \<open>Zero depth\<close>




subsection \<open>Normalising twice\<close>

lemma select_root_Inr:
  assumes "select_root idx joint_cam = Inr root_cam"
  shows "\<forall>js \<in> set joint_cam. index_ok (length js) idx"
    and "root_cam = map (\<lambda>js. js ! wrap_index (length js) idx) joint_cam"
  using assms by (auto simp: select_root_def list_all_iff split: if_splits)

lemma broadcast2_zero_roots:
  assumes "\<forall>z \<in> set zs. z = (0, 0, 0)"
    and "length xs = length zs \<or> length zs = 1"
  shows "broadcast2 (\<lambda>vs rc. map (\<lambda>p. vsub p rc) vs) xs zs = Inr xs"
proof (cases "length xs = length zs")
  case True
  have "map (\<lambda>(vs, rc). map (\<lambda>p. vsub p rc) vs) (zip xs zs) = xs"
    using True assms(1)
  proof (induction xs zs rule: list_induct2)
    case Nil
    then show ?case by simp
  next
    case (Cons x xs z zs)
    then show ?case by simp
  qed
  with True show ?thesis by (simp add: broadcast2_def)
next
  case False
  with assms(2) have one: "length zs = 1" by simp
  then obtain z where zs: "zs = [z]" by (cases zs) auto
  with assms(1) have "z = (0, 0, 0)" by simp
  with False one zs show ?thesis by (auto simp: broadcast2_def)
qed

lemma broadcast2_length:
  assumes "broadcast2 f xs ys = Inr zs"
  shows "length zs = length ys \<or> length ys = 1"
  using assms by (auto simp: broadcast2_def split: if_splits)

text \<open>
  Claim C6. Root-relative normalisation is idempotent: whenever it succeeds on joints and
  meshes, applying it again to its own result succeeds and returns that result.
\<close>

theorem root_relative_idempotent:
  assumes "root_relative idx joint_cam mesh_cam = Inr (joint_cam', mesh_cam')"
  shows "root_relative idx joint_cam' mesh_cam' = Inr (joint_cam', mesh_cam')"
proof -
  let ?sub = "\<lambda>(vs :: vec3 list) rc. map (\<lambda>p. vsub p rc) vs"
  from assms obtain root_cam where
    sel: "select_root idx joint_cam = Inr root_cam"
    and jc0: "broadcast2 ?sub joint_cam root_cam = Inr joint_cam'"
    and mc0: "broadcast2 ?sub mesh_cam root_cam = Inr mesh_cam'"
    by (auto simp: root_relative_def split: sum.splits)
  note ok = select_root_Inr(1) [OF sel] and roots = select_root_Inr(2) [OF sel]
  have jc: "joint_cam' = map (\<lambda>js. map (\<lambda>p. vsub p (js ! wrap_index (length js) idx)) js) joint_cam"
    using jc0 by (simp add: roots broadcast2_same_length zip_map_self)
  let ?zeros = "map (\<lambda>js. js ! wrap_index (length js) idx) joint_cam'"
  have ok': "\<forall>js \<in> set joint_cam'. index_ok (length js) idx"
    using ok by (auto simp: jc)
  have sel': "select_root idx joint_cam' = Inr ?zeros"
    using ok' by (simp add: select_root_def list_all_iff)
  have zero: "\<forall>z \<in> set ?zeros. z = (0, 0, 0)"
    using ok by (auto simp: jc dest!: wrap_index_less)
  have len: "length ?zeros = length root_cam" by (simp add: jc roots)
  have "broadcast2 ?sub joint_cam' ?zeros = Inr joint_cam'"
    by (rule broadcast2_zero_roots [OF zero]) simp
  moreover have "broadcast2 ?sub mesh_cam' ?zeros = Inr mesh_cam'"
    using broadcast2_length [OF mc0] len by (intro broadcast2_zero_roots [OF zero]) simp
  ultimately show ?thesis by (simp add: root_relative_def sel')
qed

theorem root_relative_idempotent_witness:
  "root_relative 0 [[(0, 0, 5), (1, 2, 9)]] [[(0, 0, 5), (2, 4, 13)]]
     = Inr ([[(0, 0, 0), (1, 2, 4)]], [[(0, 0, 0), (2, 4, 8)]])
   \<and> root_relative 0 [[(0, 0, 0), (1, 2, 4)]] [[(0, 0, 0), (2, 4, 8)]]
     = Inr ([[(0, 0, 0), (1, 2, 4)]], [[(0, 0, 0), (2, 4, 8)]])"
proof -
  have once: "root_relative 0 [[(0, 0, 5), (1, 2, 9)]] [[(0, 0, 5), (2, 4, 13)]]
     = Inr ([[(0, 0, 0), (1, 2, 4)]], [[(0, 0, 0), (2, 4, 8)]])"
    by (simp add: root_relative_def select_root_def broadcast2_def index_ok_def wrap_index_def)
  from root_relative_idempotent [OF once] once show ?thesis by simp
qed

subsection \<open>Samples of a batch do not influence each other\<close>

text \<open>
  Claim C8. Let the body model act on each sample separately. If two successful runs of
  \<open>get_coord\<close> on batches of the same size agree on the inputs of sample \<open>i\<close>, then
  they agree on the projected joints, the joints and the mesh of sample \<open>i\<close>, whatever
  the other samples are.
\<close>

theorem get_coord_batch_independent:
  assumes samplewise:
      "\<forall>rp bp sh i. i < length rp \<longrightarrow> smpl_layer m rp bp sh ! i = f (rp ! i) (bp ! i) (sh ! i)"
    and run: "get_coord m smpl cfg rp bp sh ct = Inr (joint_proj, joint_cam, mesh_cam)"
    and run': "get_coord m smpl cfg rp' bp' sh' ct' = Inr (joint_proj', joint_cam', mesh_cam')"
    and lens: "length rp' = length rp" "length ct = length rp" "length ct' = length rp"
    and i: "i < length rp"
    and same: "rp' ! i = rp ! i" "bp' ! i = bp ! i" "sh' ! i = sh ! i" "ct' ! i = ct ! i"
  shows "joint_proj' ! i = joint_proj ! i \<and> joint_cam' ! i = joint_cam ! i
         \<and> mesh_cam' ! i = mesh_cam ! i"
proof -
  let ?reg = "joint_regressor smpl"
  let ?r = "wrap_index (length ?reg) (root_joint_idx smpl)"
  let ?mesh = "smpl_layer m rp bp sh" and ?mesh' = "smpl_layer m rp' bp' sh'"
  note facts = get_coord_Inr [OF run] and facts' = get_coord_Inr [OF run']
  have i': "i < length rp'" using i lens by simp
  have mesh: "?mesh' ! i = ?mesh ! i"
    using samplewise i i' same by simp
  have len: "length ?mesh = length rp" "length ?mesh' = length rp"
    using facts(1) facts'(1) lens by simp_all
  have "joint_cam' ! i = joint_cam ! i"
    using facts(5) facts'(5) len i mesh by simp
  moreover have "mesh_cam' ! i = mesh_cam ! i"
    using facts(6) facts'(6) len i mesh by simp
  moreover have "joint_proj' ! i = joint_proj ! i"
  proof -
    have p: "joint_proj ! i = map (\<lambda>p. project_point cfg p (ct ! i)) (regress ?reg (?mesh ! i))"
      using facts(2) len lens i by (auto simp: project_def broadcast2_def)
    have p': "joint_proj' ! i = map (\<lambda>p. project_point cfg p (ct' ! i)) (regress ?reg (?mesh' ! i))"
      using facts'(2) len lens i by (auto simp: project_def broadcast2_def)
    show ?thesis by (simp add: p p' mesh same)
  qed
  ultimately show ?thesis by simp
qed

lemmas demo_defs = get_coord_def demo_model_def demo_smpl_def demo_cfg_def demo_layer_def
        bmm_regressor_def regress_def regress_row_def project_def broadcast2_def tdiv_def
        root_relative_def select_root_def index_ok_def wrap_index_def

lemma demo_run_two:
  "get_coord demo_model demo_smpl demo_cfg [[0, 0, 0], [1, 0, 0]] [[], []] [[], []]
       [(0, 0, 9999 / 10000), (0, 0, 9999 / 10000)]
     = Inr ([[(Some 256, Some 256), (Some 356, Some 456)],
             [(Some 256, Some 256), (Some 406, Some 456)]],
            [[(0, 0, 0), (1, 2, 4)], [(0, 0, 0), (3 / 2, 2, 4)]],
            [[(0, 0, 0), (2, 4, 8)], [(0, 0, 0), (3, 4, 8)]])"
  by (simp add: demo_defs)

lemma demo_run_two_perturbed:
  "get_coord demo_model demo_smpl demo_cfg [[0, 0, 0], [5, 5, 5]] [[], [1]] [[], [2]]
       [(0, 0, 9999 / 10000), (1, 1, 9999 / 10000)]
     = Inr ([[(Some 256, Some 256), (Some 356, Some 456)],
             [(Some (1268 / 3), Some (1268 / 3)), (Some 1206, Some 556)]],
            [[(0, 0, 0), (1, 2, 4)], [(0, 0, 0), (17 / 2, 2, 4)]],
            [[(0, 0, 0), (2, 4, 8)], [(0, 0, 0), (17, 4, 8)]])"
  by (simp add: demo_defs)

theorem get_coord_batch_independent_witness:
  "\<exists>joint_proj joint_cam mesh_cam joint_proj' joint_cam' mesh_cam'.
     get_coord demo_model demo_smpl demo_cfg [[0, 0, 0], [1, 0, 0]] [[], []] [[], []]
         [(0, 0, 9999 / 10000), (0, 0, 9999 / 10000)]
       = Inr (joint_proj, joint_cam, mesh_cam)
     \<and> get_coord demo_model demo_smpl demo_cfg [[0, 0, 0], [5, 5, 5]] [[], [1]] [[], [2]]
         [(0, 0, 9999 / 10000), (1, 1, 9999 / 10000)]
       = Inr (joint_proj', joint_cam', mesh_cam')
     \<and> joint_proj' ! 0 = joint_proj ! 0 \<and> joint_cam' ! 0 = joint_cam ! 0
     \<and> mesh_cam' ! 0 = mesh_cam ! 0
     \<and> joint_proj' ! 1 \<noteq> joint_proj ! 1 \<and> joint_cam' ! 1 \<noteq> joint_cam ! 1
     \<and> mesh_cam' ! 1 \<noteq> mesh_cam ! 1"
proof -
  have samplewise:
    "\<forall>rp bp sh i. i < length rp \<longrightarrow>
        smpl_layer demo_model rp bp sh ! i
          = (\<lambda>r b s. [(0, 0, 5), (2 + sum_list r, 4, 13)]) (rp ! i) (bp ! i) (sh ! i)"
    by (simp add: demo_model_def demo_layer_def)
  have lens: "length [[0, 0, 0], [5, 5, 5 :: real]] = length [[0, 0, 0], [1, 0, 0 :: real]]"
    "length [(0, 0, 9999 / 10000), (0, 0, 9999 / 10000 :: real)] = length [[0, 0, 0], [1, 0, 0 :: real]]"
    "length [(0, 0, 9999 / 10000), (1, 1, 9999 / 10000 :: real)] = length [[0, 0, 0], [1, 0, 0 :: real]]"
    by simp_all
  have i: "0 < length [[0, 0, 0], [1, 0, 0 :: real]]" by simp
  have same: "[[0, 0, 0], [5, 5, 5 :: real]] ! 0 = [[0, 0, 0], [1, 0, 0]] ! 0"
    "[[], [1 :: real]] ! 0 = [[], []] ! 0" "[[], [2 :: real]] ! 0 = [[], []] ! 0"
    "[(0, 0, 9999 / 10000), (1, 1, 9999 / 10000 :: real)] ! 0
       = [(0, 0, 9999 / 10000), (0, 0, 9999 / 10000)] ! 0"
    by simp_all
  from get_coord_batch_independent
         [OF samplewise demo_run_two demo_run_two_perturbed lens i same]
  show ?thesis unfolding demo_run_two demo_run_two_perturbed by simp
qed

section \<open>The rotation converter\<close>

text \<open>
  The columns of a rotation matrix built from a unit axis are orthonormal and the third
  is the cross product of the first two: polynomial identities in the entries.
\<close>

lemma col1_unit:
  fixes x y z c s :: real
  assumes u: "x * x + y * y + z * z = 1" and cs: "s * s + c * c = 1"
  shows "(c + x * x * (1 - c)) * (c + x * x * (1 - c))
         + (x * y * (1 - c) + z * s) * (x * y * (1 - c) + z * s)
         + (x * z * (1 - c) - y * s) * (x * z * (1 - c) - y * s) = 1"
  using assms by algebra

lemma col2_unit:
  fixes x y z c s :: real
  assumes u: "x * x + y * y + z * z = 1" and cs: "s * s + c * c = 1"
  shows "(x * y * (1 - c) - z * s) * (x * y * (1 - c) - z * s)
         + (c + y * y * (1 - c)) * (c + y * y * (1 - c))
         + (y * z * (1 - c) + x * s) * (y * z * (1 - c) + x * s) = 1"
  using assms by algebra

lemma col12_orth:
  fixes x y z c s :: real
  assumes u: "x * x + y * y + z * z = 1" and cs: "s * s + c * c = 1"
  shows "(c + x * x * (1 - c)) * (x * y * (1 - c) - z * s)
         + (x * y * (1 - c) + z * s) * (c + y * y * (1 - c))
         + (x * z * (1 - c) - y * s) * (y * z * (1 - c) + x * s) = 0"
  using assms by algebra

lemma col12_cross:
  fixes x y z c s :: real
  assumes u: "x * x + y * y + z * z = 1" and cs: "s * s + c * c = 1"
  shows "(x * y * (1 - c) + z * s) * (y * z * (1 - c) + x * s)
           - (x * z * (1 - c) - y * s) * (c + y * y * (1 - c)) = x * z * (1 - c) + y * s"
    and "(x * z * (1 - c) - y * s) * (x * y * (1 - c) - z * s)
           - (c + x * x * (1 - c)) * (y * z * (1 - c) + x * s) = y * z * (1 - c) - x * s"
    and "(c + x * x * (1 - c)) * (c + y * y * (1 - c))
           - (x * y * (1 - c) + z * s) * (x * y * (1 - c) - z * s) = c + z * z * (1 - c)"
  using assms by algebra+


lemma normalize_unit: "dot v v = 1 \<Longrightarrow> normalize v = Inr v"
  by (cases v) (simp add: normalize_def norm3_def)

lemma gram_schmidt_orthonormal:
  assumes "dot a1 a1 = 1" and "dot a2 a2 = 1" and "dot a1 a2 = 0"
  shows "gram_schmidt a1 a2 = Inr (a1, a2, cross a1 a2)"
proof -
  have "vsub a2 (scale (dot a1 a2) a1) = a2"
    using assms(3) by (cases a1; cases a2) simp
  then show ?thesis
    using assms(1,2) by (simp add: gram_schmidt_def normalize_unit)
qed

lemma gram_schmidt_rotation:
  assumes u: "dot axis axis = 1"
  shows "gram_schmidt (fst (axis_angle_to_matrix \<theta> axis)) (fst (snd (axis_angle_to_matrix \<theta> axis)))
           = Inr (axis_angle_to_matrix \<theta> axis)"
proof -
  obtain x y z where axis: "axis = (x, y, z)" by (cases axis) auto
  from u have u': "x * x + y * y + z * z = 1" by (simp add: axis)
  have cs: "sin \<theta> * sin \<theta> + cos \<theta> * cos \<theta> = 1"
    using sin_cos_squared_add [of \<theta>] by (simp add: power2_eq_square)
  let ?a1 = "fst (axis_angle_to_matrix \<theta> axis)"
  let ?a2 = "fst (snd (axis_angle_to_matrix \<theta> axis))"
  have "dot ?a1 ?a1 = 1"
    using col1_unit [OF u' cs] by (simp add: axis Let_def)
  moreover have "dot ?a2 ?a2 = 1"
    using col2_unit [OF u' cs] by (simp add: axis Let_def)
  moreover have "dot ?a1 ?a2 = 0"
    using col12_orth [OF u' cs] by (simp add: axis Let_def)
  ultimately have "gram_schmidt ?a1 ?a2 = Inr (?a1, ?a2, cross ?a1 ?a2)"
    by (rule gram_schmidt_orthonormal)
  moreover have "cross ?a1 ?a2 = snd (snd (axis_angle_to_matrix \<theta> axis))"
    using col12_cross [OF u' cs] by (simp add: axis Let_def)
  ultimately show ?thesis by simp
qed

lemma matrix_to_axis_angle_rotation:
  assumes u: "dot axis axis = 1" and \<theta>: "0 < \<theta>" "\<theta> < pi"
  shows "matrix_to_axis_angle (axis_angle_to_matrix \<theta> axis) = Inr (scale \<theta> axis)"
proof -
  obtain x y z where axis: "axis = (x, y, z)" by (cases axis) auto
  from u have u': "x * x + y * y + z * z = 1" by (simp add: axis)
  have s: "0 < sin \<theta>" using \<theta> by (rule sin_gt_zero)
  have "cos \<theta> + x * x * (1 - cos \<theta>) + (cos \<theta> + y * y * (1 - cos \<theta>))
          + (cos \<theta> + z * z * (1 - cos \<theta>)) - 1
        = 2 * cos \<theta> + (x * x + y * y + z * z - 1) * (1 - cos \<theta>)"
    by (simp add: algebra_simps)
  then have tr: "(cos \<theta> + x * x * (1 - cos \<theta>) + (cos \<theta> + y * y * (1 - cos \<theta>))
          + (cos \<theta> + z * z * (1 - cos \<theta>)) - 1) / 2 = cos \<theta>"
    using u' by simp
  have angle: "arccos (cos \<theta>) = \<theta>" using \<theta> by (simp add: arccos_cos)
  have "dot (scale (sin \<theta>) (x, y, z)) (scale (sin \<theta>) (x, y, z))
          = (sin \<theta>)\<^sup>2 * (x * x + y * y + z * z)"
    by (simp add: algebra_simps power2_eq_square)
  then have "norm3 (scale (sin \<theta>) (x, y, z)) = sin \<theta>"
    using u' s by (simp add: norm3_def del: scale.simps dot.simps)
  then have nrm: "normalize (sin \<theta> * x, sin \<theta> * y, sin \<theta> * z) = Inr (x, y, z)"
    using s by (simp add: normalize_def)
  have skew: "((y * z * (1 - cos \<theta>) + x * sin \<theta> - (y * z * (1 - cos \<theta>) - x * sin \<theta>)) / 2,
               (x * z * (1 - cos \<theta>) + y * sin \<theta> - (x * z * (1 - cos \<theta>) - y * sin \<theta>)) / 2,
               (x * y * (1 - cos \<theta>) + z * sin \<theta> - (x * y * (1 - cos \<theta>) - z * sin \<theta>)) / 2)
              = (sin \<theta> * x, sin \<theta> * y, sin \<theta> * z)"
    by (simp add: mult.commute)
  have "matrix_to_axis_angle (axis_angle_to_matrix \<theta> (x, y, z)) = Inr (scale \<theta> (x, y, z))"
    unfolding axis_angle_to_matrix.simps matrix_to_axis_angle.simps Let_def tr angle skew nrm
    using \<theta>(1) by simp
  then show ?thesis by (simp only: axis)
qed


lemma rot6d_row_encode6:
  "rot6d_row (encode6 R) = (case rot6d_one (fst R) (fst (snd R)) of
                              Inl e \<Rightarrow> Inl e | Inr (x, y, z) \<Rightarrow> Inr [x, y, z])"
proof -
  obtain r11 r21 r31 r12 r22 r32 col3 where "R = ((r11, r21, r31), (r12, r22, r32), col3)"
    by (metis prod_cases3)
  then show ?thesis by simp
qed

text \<open>
  Claim C7. For a unit axis and an angle strictly between \<open>0\<close> and \<open>pi\<close>, the
  6-vector made of the first two columns of the rotation matrix is converted back to
  the axis-angle vector \<open>angle * axis\<close> (exactly, in real arithmetic); for the angle
  \<open>0\<close> the converter returns the zero vector and does not fail.
\<close>

theorem rot6d_round_trip:
  assumes unit: "norm3 (x, y, z) = 1"
  shows "(0 < \<theta> \<and> \<theta> < pi \<longrightarrow>
            rot6d_to_axis_angle [encode6 (axis_angle_to_matrix \<theta> (x, y, z))]
              = Inr [[\<theta> * x, \<theta> * y, \<theta> * z]])
         \<and> rot6d_to_axis_angle [encode6 (axis_angle_to_matrix 0 (x, y, z))] = Inr [[0, 0, 0]]"
proof -
  from unit have "sqrt (dot (x, y, z) (x, y, z)) = 1" by (simp only: norm3_def)
  then have u: "dot (x, y, z) (x, y, z) = 1" by (simp only: real_sqrt_eq_1_iff)
  have gs: "gram_schmidt (fst (axis_angle_to_matrix \<phi> (x, y, z)))
              (fst (snd (axis_angle_to_matrix \<phi> (x, y, z))))
            = Inr (axis_angle_to_matrix \<phi> (x, y, z))" for \<phi>
    by (rule gram_schmidt_rotation [OF u])
  have one: "rot6d_to_axis_angle [encode6 (axis_angle_to_matrix \<phi> (x, y, z))]
             = (case matrix_to_axis_angle (axis_angle_to_matrix \<phi> (x, y, z)) of
                  Inl e \<Rightarrow> Inl e | Inr (a, b, c) \<Rightarrow> Inr [[a, b, c]])" for \<phi>
    by (simp add: rot6d_to_axis_angle_def rot6d_row_encode6 rot6d_one_def gs
          split: sum.splits prod.splits del: axis_angle_to_matrix.simps)
  have zero: "matrix_to_axis_angle (axis_angle_to_matrix 0 (x, y, z)) = Inr (0, 0, 0)"
    by simp
  have "rot6d_to_axis_angle [encode6 (axis_angle_to_matrix \<theta> (x, y, z))]
          = Inr [[\<theta> * x, \<theta> * y, \<theta> * z]]" if "0 < \<theta>" "\<theta> < pi"
    using matrix_to_axis_angle_rotation [OF u that]
    by (simp add: one del: axis_angle_to_matrix.simps matrix_to_axis_angle.simps)
  moreover have "rot6d_to_axis_angle [encode6 (axis_angle_to_matrix 0 (x, y, z))] = Inr [[0, 0, 0]]"
    by (simp add: one zero del: axis_angle_to_matrix.simps matrix_to_axis_angle.simps)
  ultimately show ?thesis by blast
qed

theorem rot6d_round_trip_witness:
  "norm3 (0, 0, 1) = 1 \<and> 0 < pi / 2 \<and> pi / 2 < pi
   \<and> encode6 (axis_angle_to_matrix (pi / 2) (0, 0, 1)) = [0, 1, 0, - 1, 0, 0]
   \<and> rot6d_to_axis_angle [[0, 1, 0, - 1, 0, 0]] = Inr [[0, 0, pi / 2]]
   \<and> rot6d_to_axis_angle [[1, 0, 0, 0, 1, 0]] = Inr [[0, 0, 0]]"
proof -
  have unit: "norm3 (0, 0, 1) = 1" by (simp add: norm3_def)
  have enc: "encode6 (axis_angle_to_matrix (pi / 2) (0, 0, 1)) = [0, 1, 0, - 1, 0, 0]"
    by simp
  have enc0: "encode6 (axis_angle_to_matrix 0 (0, 0, 1)) = [1, 0, 0, 0, 1, 0]"
    by simp
  from rot6d_round_trip [OF unit, of "pi / 2"] show ?thesis
    unfolding enc enc0 using unit by simp
qed

section \<open>The forward pass\<close>

subsection \<open>Runs of \<open>forward\<close>\<close>

lemma get_camera_trans_error: "k_value cfg = Inl e \<Longrightarrow> get_camera_trans cfg cam_param = Inl e"
  by (simp add: get_camera_trans_def)

lemma forward_Inr:
  assumes "forward m conv smpl cfg inp_img = Inr (mesh_cam, joint_cam, joint_proj, smpl_pose, smpl_shape)"
  shows "\<exists>cam_trans.
           get_camera_trans cfg (snd (snd (head m (backbone m inp_img)))) = Inr cam_trans
           \<and> get_coord m smpl cfg (map (take 3) smpl_pose) (map (drop 3) smpl_pose)
                 (fst (snd (head m (backbone m inp_img)))) cam_trans
               = Inr (joint_proj, joint_cam, mesh_cam)
           \<and> smpl_shape = fst (snd (head m (backbone m inp_img)))"
  using assms
  by (auto simp: forward_def Let_def split: prod.splits sum.splits)

lemma get_coord_shape_only_through_layer:
  assumes "smpl_layer m rp bp sh' = smpl_layer m rp bp sh"
  shows "get_coord m smpl cfg rp bp sh' ct = get_coord m smpl cfg rp bp sh ct"
  using assms by (simp add: get_coord_def)

lemma rot6d_identity: "rot6d_to_axis_angle [[1, 0, 0, 0, 1, 0]] = Inr [[0, 0, 0]]"
proof -
  have "rot6d_one (1, 0, 0) (0, 1, 0) = Inr (0, 0, 0)"
    by (simp add: rot6d_one_def gram_schmidt_def normalize_def norm3_def)
  then show ?thesis by (simp add: rot6d_to_axis_angle_def)
qed

lemma demo_head:
  "head demo_model (backbone demo_model [7]) = ([[1, 0, 0, 0, 1, 0]], [[3, 4]], [(0, 0, 0)])"
  by (simp add: demo_model_def)

lemma demo_pose:
  "reshape_cols 6 [[1, 0, 0, 0, 1, 0]] = Inr [[1, 0, 0, 0, 1, 0]]"
  "reshape_rows (length [7 :: nat]) [[0, 0, 0]] = Inr [[0, 0, 0]]"
  by (simp_all add: reshape_cols_def reshape_rows_def chunks_def)

lemma demo_camera: "get_camera_trans demo_cfg [(0, 0, 0)] = Inr [(0, 0, 625 / 128)]"
  by (simp add: get_camera_trans_rows [OF k_value_demo] sigmoid_zero)

lemma demo_coord:
  "\<exists>joint_proj. get_coord demo_model demo_smpl demo_cfg [[0, 0, 0]] [[]] [[3, 4]] [(0, 0, 625 / 128)]
     = Inr (joint_proj, [[(0, 0, 0), (1, 2, 4)]], [[(0, 0, 0), (2, 4, 8)]])"
  by (simp add: get_coord_def demo_model_def demo_smpl_def demo_layer_def
        bmm_regressor_def regress_def regress_row_def project_def broadcast2_def
        root_relative_def select_root_def index_ok_def wrap_index_def)

lemma demo_forward:
  "\<exists>joint_proj. forward demo_model rot6d_to_axis_angle demo_smpl demo_cfg [7]
     = Inr ([[(0, 0, 0), (2, 4, 8)]], [[(0, 0, 0), (1, 2, 4)]], joint_proj, [[0, 0, 0]], [[3, 4]])"
proof -
  from demo_coord obtain joint_proj where
    "get_coord demo_model demo_smpl demo_cfg [[0, 0, 0]] [[]] [[3, 4]] [(0, 0, 625 / 128)]
       = Inr (joint_proj, [[(0, 0, 0), (1, 2, 4)]], [[(0, 0, 0), (2, 4, 8)]])"
    by blast
  then have "forward demo_model rot6d_to_axis_angle demo_smpl demo_cfg [7]
     = Inr ([[(0, 0, 0), (2, 4, 8)]], [[(0, 0, 0), (1, 2, 4)]], joint_proj, [[0, 0, 0]], [[3, 4]])"
    unfolding forward_def Let_def demo_head
    by (simp add: demo_pose rot6d_identity demo_camera del: length_Cons list.size)
  then show ?thesis by blast
qed

lemma forward_camera_error:
  assumes k: "k_value cfg = Inl e"
    and "reshape_cols 6 (fst (head m (backbone m inp_img))) = Inr rows6"
    and "conv rows6 = Inr rows3"
    and "reshape_rows (length inp_img) rows3 = Inr smpl_pose"
  shows "forward m conv smpl cfg inp_img = Inl e"
  using assms(2-) get_camera_trans_error [OF k]
  by (cases "head m (backbone m inp_img)") (auto simp: forward_def Let_def)

lemma forward_no_result:
  assumes k: "k_value cfg = Inl e"
  shows "\<exists>e'. forward m conv smpl cfg inp_img = Inl e'"
  using get_camera_trans_error [OF k]
  by (auto simp: forward_def Let_def split: prod.splits sum.splits)

lemma demo_init:
  "Model_init cfg demo_smpl (backbone demo_model) (head demo_model)
     = (if TRAIN_freeze_backbone cfg then Inr (demo_model \<lparr> trainable_modules := [Head] \<rparr>)
        else Inr demo_model)"
  by (simp add: Model_init_def demo_smpl_def demo_model_def)

subsection \<open>The shape vector is passed through\<close>

text \<open>
  Claim C10. In every successful forward pass the shape vector returned as the fifth
  component is the shape tensor produced by the head, and it is the shape that
  \<open>get_coord\<close> was given. \<open>get_coord\<close> returns no shape of its own and reads the shape
  only to call the body model: any other shape for which the body model gives the same
  meshes gives the same result.
\<close>

theorem forward_shape_unchanged:
  assumes "forward m conv smpl cfg inp_img = Inr (mesh_cam, joint_cam, joint_proj, smpl_pose, smpl_shape)"
  shows "smpl_shape = fst (snd (head m (backbone m inp_img)))
         \<and> (\<exists>cam_trans.
               get_coord m smpl cfg (map (take 3) smpl_pose) (map (drop 3) smpl_pose)
                   smpl_shape cam_trans
                 = Inr (joint_proj, joint_cam, mesh_cam)
               \<and> (\<forall>sh'. smpl_layer m (map (take 3) smpl_pose) (map (drop 3) smpl_pose) sh'
                            = smpl_layer m (map (take 3) smpl_pose) (map (drop 3) smpl_pose)
                                smpl_shape
                          \<longrightarrow> get_coord m smpl cfg (map (take 3) smpl_pose)
                                (map (drop 3) smpl_pose) sh' cam_trans
                              = Inr (joint_proj, joint_cam, mesh_cam)))"
proof -
  from forward_Inr [OF assms] obtain cam_trans where
    shape: "smpl_shape = fst (snd (head m (backbone m inp_img)))"
    and run: "get_coord m smpl cfg (map (take 3) smpl_pose) (map (drop 3) smpl_pose)
                smpl_shape cam_trans = Inr (joint_proj, joint_cam, mesh_cam)"
    by auto
  have "get_coord m smpl cfg (map (take 3) smpl_pose) (map (drop 3) smpl_pose) sh' cam_trans
          = Inr (joint_proj, joint_cam, mesh_cam)"
    if "smpl_layer m (map (take 3) smpl_pose) (map (drop 3) smpl_pose) sh'
          = smpl_layer m (map (take 3) smpl_pose) (map (drop 3) smpl_pose) smpl_shape" for sh'
    using get_coord_shape_only_through_layer [OF that] run by simp
  with shape run show ?thesis by blast
qed

theorem forward_shape_unchanged_witness:
  "\<exists>mesh_cam joint_cam joint_proj smpl_pose.
     forward demo_model rot6d_to_axis_angle demo_smpl demo_cfg [7]
       = Inr (mesh_cam, joint_cam, joint_proj, smpl_pose, [[3, 4]])
     \<and> fst (snd (head demo_model (backbone demo_model [7]))) = [[3, 4]]"
proof -
  from demo_forward obtain joint_proj where
    run: "forward demo_model rot6d_to_axis_angle demo_smpl demo_cfg [7]
            = Inr ([[(0, 0, 0), (2, 4, 8)]], [[(0, 0, 0), (1, 2, 4)]], joint_proj,
                   [[0, 0, 0]], [[3, 4]])"
    by blast
  from forward_shape_unchanged [OF run]
  have "fst (snd (head demo_model (backbone demo_model [7]))) = [[3, 4]]" by simp
  with run show ?thesis by blast
qed

subsection \<open>When a bad camera configuration is noticed\<close>

text \<open>
  Claim C9, as the code has it. \<open>k\<close> is computed inside \<open>get_camera_trans\<close>, on every
  forward pass. Constructing the model reads only \<open>cfg.TRAIN.freeze_backbone\<close> and
  succeeds whenever the neutral body-model layer exists; a configuration for which the
  computation of \<open>k\<close> raises makes \<open>get_camera_trans\<close> raise that error, so no forward
  pass returns, and a forward pass whose rotation conversion succeeds raises exactly
  that error.
\<close>

theorem config_error_surfaces_in_forward:
  assumes k: "k_value cfg = Inl e"
  shows "(\<forall>l. layer smpl ''neutral'' = Some l \<longrightarrow>
            Model_init cfg smpl bb hh
              = Inr \<lparr> backbone = bb, head = hh, smpl_layer = l,
                      trainable_modules =
                        (if TRAIN_freeze_backbone cfg then [Head] else [Backbone, Head]) \<rparr>)
         \<and> get_camera_trans cfg cam_param = Inl e
         \<and> (\<exists>e'. forward m conv smpl cfg inp_img = Inl e')
         \<and> (\<forall>rows6 rows3 smpl_pose.
               reshape_cols 6 (fst (head m (backbone m inp_img))) = Inr rows6 \<longrightarrow>
               conv rows6 = Inr rows3 \<longrightarrow>
               reshape_rows (length inp_img) rows3 = Inr smpl_pose \<longrightarrow>
               forward m conv smpl cfg inp_img = Inl e)"
proof -
  have "Model_init cfg smpl bb hh
          = Inr \<lparr> backbone = bb, head = hh, smpl_layer = l,
                  trainable_modules =
                    (if TRAIN_freeze_backbone cfg then [Head] else [Backbone, Head]) \<rparr>"
    if "layer smpl ''neutral'' = Some l" for l
    using that by (simp add: Model_init_def)
  moreover have "get_camera_trans cfg cam_param = Inl e"
    by (rule get_camera_trans_error [OF k])
  moreover have "\<exists>e'. forward m conv smpl cfg inp_img = Inl e'"
    by (rule forward_no_result [OF k])
  moreover have "forward m conv smpl cfg inp_img = Inl e"
    if "reshape_cols 6 (fst (head m (backbone m inp_img))) = Inr rows6"
      and "conv rows6 = Inr rows3"
      and "reshape_rows (length inp_img) rows3 = Inr smpl_pose"
    for rows6 rows3 smpl_pose
    using forward_camera_error [where conv = conv, OF k that] .
  ultimately show ?thesis by blast
qed

theorem config_error_surfaces_in_forward_witness:
  "k_value mirrored_cfg = Inl ValueError
   \<and> Model_init mirrored_cfg demo_smpl (backbone demo_model) (head demo_model) = Inr demo_model
   \<and> get_camera_trans mirrored_cfg [(0, 0, 0)] = Inl ValueError
   \<and> forward demo_model rot6d_to_axis_angle demo_smpl mirrored_cfg [7] = Inl ValueError"
proof -
  have k: "k_value mirrored_cfg = Inl ValueError"
    by (simp add: k_value_def mirrored_cfg_def demo_cfg_def)
  have pose: "reshape_cols 6 (fst (head demo_model (backbone demo_model [7 :: nat])))
                = Inr [[1, 0, 0, 0, 1, 0]]"
    by (simp add: demo_head demo_pose)
  have init: "Model_init mirrored_cfg demo_smpl (backbone demo_model) (head demo_model)
                = Inr demo_model"
    by (simp add: demo_init mirrored_cfg_def demo_cfg_def)
  from config_error_surfaces_in_forward
         [OF k, of demo_smpl "backbone demo_model" "head demo_model" "[(0, 0, 0)]"
            demo_model rot6d_to_axis_angle "[7]"]
  have "get_camera_trans mirrored_cfg [(0, 0, 0)] = Inl ValueError"
    and "forward demo_model rot6d_to_axis_angle demo_smpl mirrored_cfg [7] = Inl ValueError"
    using pose rot6d_identity demo_pose(2) by blast+
  with k init show ?thesis by simp
qed

text \<open>
  Claim C9 as stated fails: with a zero input resolution the computation of \<open>k\<close> raises
  \<open>ZeroDivisionError\<close>, yet the model is constructed, and the error appears in the
  first forward pass.
\<close>

theorem config_error_not_at_construction:
  "k_value zero_res_cfg = Inl ZeroDivisionError
   \<and> Model_init zero_res_cfg demo_smpl (backbone demo_model) (head demo_model) = Inr demo_model
   \<and> forward demo_model rot6d_to_axis_angle demo_smpl zero_res_cfg [7] = Inl ZeroDivisionError"
proof -
  have k: "k_value zero_res_cfg = Inl ZeroDivisionError"
    by (simp add: k_value_def zero_res_cfg_def demo_cfg_def)
  have pose: "reshape_cols 6 (fst (head demo_model (backbone demo_model [7 :: nat])))
                = Inr [[1, 0, 0, 0, 1, 0]]"
    by (simp add: demo_head demo_pose)
  have "forward demo_model rot6d_to_axis_angle demo_smpl zero_res_cfg [7] = Inl ZeroDivisionError"
    by (rule forward_camera_error [where conv = rot6d_to_axis_angle, OF k pose rot6d_identity demo_pose(2)])
  moreover have "Model_init zero_res_cfg demo_smpl (backbone demo_model) (head demo_model)
                   = Inr demo_model"
    by (simp add: demo_init zero_res_cfg_def demo_cfg_def)
  ultimately show ?thesis using k by simp
qed

end
